theory Spec2Isabelle
  imports Main "HOL-Library.AList"
begin

section \<open>Values exchanged with the server\<close>

text \<open>
  The server of \<^verbatim>\<open>task_master_server.py\<close> works on what \<^verbatim>\<open>json.loads\<close> returns:
  \<^verbatim>\<open>None\<close>, booleans, integers, floats, strings, lists and dictionaries with string keys.
  The scalars are kept apart from the two containers because Python can hash only the
  former, and the handlers use a request value as a dictionary key.

  A float is represented by its \<^verbatim>\<open>repr\<close> (the text Python prints for it); the only
  things done with a float are to test it for truth, to print it and to encode it.
  A dictionary is the list of its items in insertion order, with pairwise distinct keys.
\<close>

datatype scalar = SNone | SBool bool | SInt int | SFloat string | SStr string

datatype json = JScalar scalar | JArr "json list" | JObj "(string \<times> json) list"

abbreviation JNull :: json where "JNull \<equiv> JScalar SNone"
abbreviation JBool :: "bool \<Rightarrow> json" where "JBool b \<equiv> JScalar (SBool b)"
abbreviation JInt :: "int \<Rightarrow> json" where "JInt i \<equiv> JScalar (SInt i)"
abbreviation JFloat :: "string \<Rightarrow> json" where "JFloat r \<equiv> JScalar (SFloat r)"
abbreviation JStr :: "string \<Rightarrow> json" where "JStr s \<equiv> JScalar (SStr s)"

text \<open>Python's truth test, as \<^verbatim>\<open>if not x\<close> applies it.\<close>

fun truthy :: "json \<Rightarrow> bool" where
  "truthy (JScalar SNone) = False"
| "truthy (JScalar (SBool b)) = b"
| "truthy (JScalar (SInt i)) = (i \<noteq> 0)"
| "truthy (JScalar (SFloat r)) = (r \<noteq> ''0.0'' \<and> r \<noteq> ''-0.0'')"
| "truthy (JScalar (SStr s)) = (s \<noteq> [])"
| "truthy (JArr xs) = (xs \<noteq> [])"
| "truthy (JObj kvs) = (kvs \<noteq> [])"

text \<open>\<^verbatim>\<open>str(x)\<close> for a scalar, as an f-string applies it.\<close>

fun str_nat :: "nat \<Rightarrow> string" where
  "str_nat n =
     (if n < 10 then [char_of (48 + n)]
      else str_nat (n div 10) @ [char_of (48 + n mod 10)])"

declare str_nat.simps [simp del]

definition str_int :: "int \<Rightarrow> string" where
  "str_int i = (if i < 0 then CHR ''-'' # str_nat (nat (- i)) else str_nat (nat i))"

fun str_scalar :: "scalar \<Rightarrow> string" where
  "str_scalar SNone = ''None''"
| "str_scalar (SBool b) = (if b then ''True'' else ''False'')"
| "str_scalar (SInt i) = str_int i"
| "str_scalar (SFloat r) = r"
| "str_scalar (SStr s) = s"

fun type_name :: "json \<Rightarrow> string" where
  "type_name (JScalar SNone) = ''NoneType''"
| "type_name (JScalar (SBool b)) = ''bool''"
| "type_name (JScalar (SInt i)) = ''int''"
| "type_name (JScalar (SFloat r)) = ''float''"
| "type_name (JScalar (SStr s)) = ''str''"
| "type_name (JArr xs) = ''list''"
| "type_name (JObj kvs) = ''dict''"

section \<open>Exceptions\<close>

text \<open>
  Every exception carries the text \<^verbatim>\<open>str(e)\<close> gives for it. \<^verbatim>\<open>PyException\<close> stands
  for any other subclass of \<^verbatim>\<open>Exception\<close>.
\<close>

datatype py_exn =
    JSONDecodeError string
  | AttributeError string
  | TypeError string
  | PyException string

fun str_exn :: "py_exn \<Rightarrow> string" where
  "str_exn (JSONDecodeError m) = m"
| "str_exn (AttributeError m) = m"
| "str_exn (TypeError m) = m"
| "str_exn (PyException m) = m"

definition quote :: "string \<Rightarrow> string" where
  "quote s = [char_of (39::nat)] @ s @ [char_of (39::nat)]"

text \<open>Calling \<^verbatim>\<open>.get\<close> on a value that is not a dictionary.\<close>

definition no_attribute :: "json \<Rightarrow> string \<Rightarrow> py_exn" where
  "no_attribute v a =
     AttributeError (quote (type_name v) @ '' object has no attribute '' @ quote a)"

text \<open>Hashing a value, the first step of using it as a dictionary key.\<close>

fun py_hash :: "json \<Rightarrow> py_exn + scalar" where
  "py_hash (JScalar s) = Inr s"
| "py_hash v = Inl (TypeError (''unhashable type: '' @ quote (type_name v)))"

section \<open>The task store\<close>

type_synonym task = "(string \<times> json) list"

type_synonym store = "(string \<times> task) list"

text \<open>The global \<^verbatim>\<open>tasks\<close> as the module creates it.\<close>

definition tasks :: store where
  "tasks =
    [(''task-001'',
       [(''id'', JStr ''task-001''),
        (''title'', JStr ''Implement MCP server''),
        (''description'', JStr ''Create a working MCP server implementation''),
        (''status'', JStr ''in_progress''),
        (''priority'', JStr ''high''),
        (''created_at'', JStr ''2025-04-24T12:00:00Z''),
        (''due_date'', JStr ''2025-04-26T12:00:00Z'')]),
     (''task-002'',
       [(''id'', JStr ''task-002''),
        (''title'', JStr ''Test relay proxy''),
        (''description'', JStr ''Test the relay proxy with the MCP server''),
        (''status'', JStr ''pending''),
        (''priority'', JStr ''medium''),
        (''created_at'', JStr ''2025-04-24T12:30:00Z''),
        (''due_date'', JStr ''2025-04-27T12:00:00Z'')])]"

text \<open>
  \<^verbatim>\<open>tasks.get(k)\<close> and \<^verbatim>\<open>k in tasks\<close> for a hashed key: every key of the store is a
  string, and no other scalar equals a string. The key comes back with the record.
\<close>

fun tasks_get :: "store \<Rightarrow> scalar \<Rightarrow> (string \<times> task) option" where
  "tasks_get store (SStr k) = map_option (Pair k) (map_of store k)"
| "tasks_get store s = None"

text \<open>\<^verbatim>\<open>d.get(k, default)\<close> on the items of a dictionary.\<close>

definition dict_get :: "(string \<times> json) list \<Rightarrow> string \<Rightarrow> json \<Rightarrow> json" where
  "dict_get kvs k d = (case map_of kvs k of None \<Rightarrow> d | Some v \<Rightarrow> v)"

definition error_payload :: "string \<Rightarrow> json" where
  "error_payload m = JObj [(''error'', JStr m)]"

definition not_found :: "scalar \<Rightarrow> json" where
  "not_found k = error_payload (''Task with ID '' @ str_scalar k @ '' not found'')"

section \<open>The handlers\<close>

text \<open>
  What a call draws from outside: \<^verbatim>\<open>str(uuid.uuid4())\<close> and
  \<^verbatim>\<open>datetime.now().isoformat()\<close>. Only the create handler reads them.
\<close>

record env =
  uuid4 :: string
  now :: string

text \<open>
  A handler takes the parameters, the environment and the store, and either raises or
  returns its result with the store as it left it. Every handler raises, if at all,
  before its first write, so a raised exception leaves the store as it was.
\<close>

type_synonym handler = "json \<Rightarrow> env \<Rightarrow> store \<Rightarrow> py_exn + (json \<times> store)"

definition handle_list_tasks :: handler where
  "handle_list_tasks parameters e store =
     Inr (JObj [(''tasks'', JArr (map (\<lambda>(k, t). JObj t) store))], store)"

fun handle_get_task :: handler where
  "handle_get_task (JObj ps) e store =
     (let task_id = dict_get ps ''task_id'' JNull in
      if \<not> truthy task_id then Inr (error_payload ''task_id parameter is required'', store)
      else
        (case py_hash task_id of
           Inl x \<Rightarrow> Inl x
         | Inr k \<Rightarrow>
             (case tasks_get store k of
                None \<Rightarrow> Inr (not_found k, store)
              | Some (key, task) \<Rightarrow>
                  if \<not> truthy (JObj task) then Inr (not_found k, store)
                  else Inr (JObj [(''task'', JObj task)], store))))"
| "handle_get_task v e store = Inl (no_attribute v ''get'')"

fun handle_create_task :: handler where
  "handle_create_task (JObj ps) e store =
     (let title = dict_get ps ''title'' JNull in
      if \<not> truthy title then Inr (error_payload ''title parameter is required'', store)
      else
        (let description = dict_get ps ''description'' (JStr '''');
             priority = dict_get ps ''priority'' (JStr ''medium'');
             due_date = dict_get ps ''due_date'' JNull;
             task_id = ''task-'' @ take 8 (uuid4 e);
             created_at = now e;
             task = [(''id'', JStr task_id),
                     (''title'', title),
                     (''description'', description),
                     (''status'', JStr ''pending''),
                     (''priority'', priority),
                     (''created_at'', JStr created_at),
                     (''due_date'', due_date)]
         in Inr (JObj [(''task'', JObj task), (''task_id'', JStr task_id)],
                 AList.update task_id task store)))"
| "handle_create_task v e store = Inl (no_attribute v ''get'')"

text \<open>The loop of the update handler over the five fields it may overwrite.\<close>

definition update_fields :: "string list" where
  "update_fields = [''title'', ''description'', ''status'', ''priority'', ''due_date'']"

fun update_loop :: "(string \<times> json) list \<Rightarrow> string list \<Rightarrow> task \<Rightarrow> task" where
  "update_loop ps [] task = task"
| "update_loop ps (field # rest) task =
     update_loop ps rest
       (case map_of ps field of
          None \<Rightarrow> task
        | Some v \<Rightarrow> AList.update field v task)"

text \<open>
  The record the update handler changes is the object the store holds, so the store
  sees the change: the new record is written back under its key.
\<close>

fun handle_update_task :: handler where
  "handle_update_task (JObj ps) e store =
     (let task_id = dict_get ps ''task_id'' JNull in
      if \<not> truthy task_id then Inr (error_payload ''task_id parameter is required'', store)
      else
        (case py_hash task_id of
           Inl x \<Rightarrow> Inl x
         | Inr k \<Rightarrow>
             (case tasks_get store k of
                None \<Rightarrow> Inr (not_found k, store)
              | Some (key, task) \<Rightarrow>
                  if \<not> truthy (JObj task) then Inr (not_found k, store)
                  else
                    (let task' = update_loop ps update_fields task
                     in Inr (JObj [(''task'', JObj task')],
                             AList.update key task' store)))))"
| "handle_update_task v e store = Inl (no_attribute v ''get'')"

fun handle_delete_task :: handler where
  "handle_delete_task (JObj ps) e store =
     (let task_id = dict_get ps ''task_id'' JNull in
      if \<not> truthy task_id then Inr (error_payload ''task_id parameter is required'', store)
      else
        (case py_hash task_id of
           Inl x \<Rightarrow> Inl x
         | Inr k \<Rightarrow>
             (case tasks_get store k of
                None \<Rightarrow> Inr (not_found k, store)
              | Some (key, deleted_task) \<Rightarrow>
                  Inr (JObj [(''success'', JBool True), (''deleted_task'', JObj deleted_task)],
                       AList.delete key store))))"
| "handle_delete_task v e store = Inl (no_attribute v ''get'')"

definition handler_map :: "string \<Rightarrow> handler option" where
  "handler_map =
     map_of [(''list_tasks'', handle_list_tasks),
             (''get_task'', handle_get_task),
             (''create_task'', handle_create_task),
             (''update_task'', handle_update_task),
             (''delete_task'', handle_delete_task)]"

section \<open>The request router\<close>

text \<open>
  The body of \<^verbatim>\<open>handle_mcp_request\<close>. Its argument \<open>loaded\<close> is what
  \<^verbatim>\<open>json.loads(await request.body())\<close> came to: the decoded value, or the exception
  raised on the way. The two globals the function reads, \<^verbatim>\<open>handler_map\<close> and
  \<^verbatim>\<open>tasks\<close>, are passed to it. The first \<^verbatim>\<open>except\<close> clause takes a
  \<^verbatim>\<open>JSONDecodeError\<close>, the second every other \<^verbatim>\<open>Exception\<close>.
\<close>

fun except_clauses :: "py_exn \<Rightarrow> json" where
  "except_clauses (JSONDecodeError m) = error_payload ''Invalid JSON in request body''"
| "except_clauses x = error_payload (str_exn x)"

definition handle_mcp_request ::
  "(string \<Rightarrow> handler option) \<Rightarrow> string \<Rightarrow> py_exn + json \<Rightarrow> env \<Rightarrow> store \<Rightarrow> json \<times> store" where
  "handle_mcp_request hmap function_name loaded e store =
     (case loaded of
        Inl x \<Rightarrow> (except_clauses x, store)
      | Inr parameters \<Rightarrow>
          (case hmap function_name of
             None \<Rightarrow> (error_payload (''Function '' @ function_name @ '' not supported''), store)
           | Some h \<Rightarrow>
               (case h parameters e store of
                  Inl x \<Rightarrow> (except_clauses x, store)
                | Inr (result, store') \<Rightarrow> (result, store'))))"

section \<open>Authentication and the endpoint\<close>

record credentials =
  username :: string
  password :: string

definition USERNAME :: string where
  "USERNAME = ''instabids''"

definition PASSWORD :: string where
  "PASSWORD = ''secure123password''"

text \<open>
  \<^verbatim>\<open>secrets.compare_digest\<close> on two strings: it compares them when both are ASCII and
  raises \<^verbatim>\<open>TypeError\<close> otherwise. A string is the list of the bytes of its UTF-8
  encoding, so it is ASCII when every byte is below 128.
\<close>

definition is_ascii :: "string \<Rightarrow> bool" where
  "is_ascii s = list_all (\<lambda>c. (of_char c :: nat) < 128) s"

definition compare_digest :: "string \<Rightarrow> string \<Rightarrow> py_exn + bool" where
  "compare_digest a b =
     (if is_ascii a \<and> is_ascii b then Inr (a = b)
      else Inl (TypeError ''comparing strings with non-ASCII characters is not supported''))"

text \<open>What a dependency of the endpoint may raise.\<close>

datatype raised =
    HTTPException nat string "(string \<times> string) list"
  | Uncaught py_exn

text \<open>
  The dependency \<^verbatim>\<open>security = HTTPBasic()\<close> of the framework, which hands the pair of
  the \<^verbatim>\<open>Authorization\<close> header to \<^verbatim>\<open>verify_credentials\<close>. It decodes the header as
  ASCII and answers a pair it cannot decode with 401 itself. (A request without a pair
  in its header is answered by the framework the same way and is not modelled.)
\<close>

definition security :: "credentials \<Rightarrow> raised + credentials" where
  "security c =
     (if is_ascii (username c) \<and> is_ascii (password c) then Inr c
      else Inl (HTTPException 401 ''Invalid authentication credentials''
                  [(''WWW-Authenticate'', ''Basic'')]))"

definition verify_credentials :: "credentials \<Rightarrow> raised + credentials" where
  "verify_credentials c =
     (case compare_digest (username c) USERNAME of
        Inl x \<Rightarrow> Inl (Uncaught x)
      | Inr is_username_correct \<Rightarrow>
          (case compare_digest (password c) PASSWORD of
             Inl x \<Rightarrow> Inl (Uncaught x)
           | Inr is_password_correct \<Rightarrow>
               if \<not> (is_username_correct \<and> is_password_correct)
               then Inl (HTTPException 401 ''Invalid credentials''
                           [(''WWW-Authenticate'', ''Basic'')])
               else Inr c))"

record response =
  status :: nat
  headers :: "(string \<times> string) list"
  body :: json

text \<open>
  How the framework answers when a dependency raises: an \<^verbatim>\<open>HTTPException\<close> becomes
  the response with its status, its headers and its detail, any other exception a
  response of status 500.
\<close>

fun exception_response :: "raised \<Rightarrow> response" where
  "exception_response (HTTPException code detail hs) =
     \<lparr>status = code, headers = hs, body = JObj [(''detail'', JStr detail)]\<rparr>"
| "exception_response (Uncaught x) =
     \<lparr>status = 500, headers = [], body = JStr ''Internal Server Error''\<rparr>"

text \<open>
  What the framework does with the dictionary the endpoint returns, after
  \<^verbatim>\<open>handle_mcp_request\<close> and so outside its \<^verbatim>\<open>try\<close>: it encodes it as JSON with
  \<^verbatim>\<open>allow_nan=False\<close> and then as UTF-8. The first step raises on a float that is
  \<^verbatim>\<open>nan\<close> or infinite, the second on a string with a lone surrogate, and the framework
  answers an exception raised there with status 500.

  A string is the list of the bytes of its UTF-8 encoding. A lone surrogate, which
  \<^verbatim>\<open>json.loads\<close> accepts from an escape such as \<^verbatim>\<open>\ud800\<close> and which has no UTF-8
  encoding, is written as the three bytes a surrogate would get: \<^verbatim>\<open>ED\<close>, then a byte
  from \<^verbatim>\<open>A0\<close> on, then a continuation byte. No other character has these first two
  bytes.
\<close>

fun utf8_encodable :: "string \<Rightarrow> bool" where
  "utf8_encodable (a # b # s) =
     (\<not> ((of_char a :: nat) = 237 \<and> (160::nat) \<le> of_char b) \<and> utf8_encodable (b # s))"
| "utf8_encodable s = True"

definition json_compliant :: "string \<Rightarrow> bool" where
  "json_compliant r = (r \<noteq> ''nan'' \<and> r \<noteq> ''inf'' \<and> r \<noteq> ''-inf'')"

fun encodable :: "json \<Rightarrow> bool" where
  "encodable (JScalar (SFloat r)) = json_compliant r"
| "encodable (JScalar (SStr s)) = utf8_encodable s"
| "encodable (JScalar s) = True"
| "encodable (JArr xs) = (\<forall>x \<in> set xs. encodable x)"
| "encodable (JObj kvs) = (\<forall>(k, v) \<in> set kvs. utf8_encodable k \<and> encodable v)"

definition json_response :: "json \<Rightarrow> response" where
  "json_response content =
     (if encodable content then \<lparr>status = 200, headers = [], body = content\<rparr>
      else \<lparr>status = 500, headers = [], body = JStr ''Internal Server Error''\<rparr>)"

text \<open>
  The route \<^verbatim>\<open>POST /mcp/{function_name}\<close> as the decorator and \<^verbatim>\<open>Depends\<close> set it
  up: the framework runs \<^verbatim>\<open>security\<close> and \<^verbatim>\<open>verify_credentials\<close> first, and when
  one of them raises, \<^verbatim>\<open>handle_mcp_request\<close> is not called. Otherwise it encodes the
  dictionary \<^verbatim>\<open>handle_mcp_request\<close> returns: that is the body of a response of status
  200, or the response has status 500. What the handler wrote to the store stays written
  in both cases.
\<close>

definition post_mcp ::
  "(string \<Rightarrow> handler option) \<Rightarrow> string \<Rightarrow> py_exn + json \<Rightarrow> credentials \<Rightarrow> env \<Rightarrow> store
     \<Rightarrow> response \<times> store" where
  "post_mcp hmap function_name loaded c e store =
     (case security c of
        Inl x \<Rightarrow> (exception_response x, store)
      | Inr c' \<Rightarrow>
          (case verify_credentials c' of
             Inl x \<Rightarrow> (exception_response x, store)
           | Inr c'' \<Rightarrow>
               (case handle_mcp_request hmap function_name loaded e store of
                  (result, store') \<Rightarrow> (json_response result, store'))))"

section \<open>Sequences of calls\<close>

text \<open>
  A call names one of the handlers and gives it its parameters and its environment.
  The store after a call that raised is the store before it.
\<close>

type_synonym call = "string \<times> json \<times> env"

fun apply_call :: "store \<Rightarrow> call \<Rightarrow> store" where
  "apply_call store (name, parameters, e) =
     (case handler_map name of
        None \<Rightarrow> store
      | Some h \<Rightarrow>
          (case h parameters e store of
             Inl x \<Rightarrow> store
           | Inr (result, store') \<Rightarrow> store'))"

definition run_calls :: "call list \<Rightarrow> store \<Rightarrow> store" where
  "run_calls cs store = foldl apply_call store cs"

text \<open>The identifiers the create calls of a sequence write to the store.\<close>

fun created_ids :: "call list \<Rightarrow> string list" where
  "created_ids [] = []"
| "created_ids ((name, parameters, e) # cs) =
     (if name = ''create_task'' then (''task-'' @ take 8 (uuid4 e)) # created_ids cs
      else created_ids cs)"

text \<open>
  The shape every store the server reaches has: no key twice, and under every key a
  record whose \<^verbatim>\<open>id\<close> is the key, which starts with \<^verbatim>\<open>task-\<close>.
\<close>

definition store_inv :: "store \<Rightarrow> bool" where
  "store_inv store =
     (distinct (map fst store) \<and>
      (\<forall>(k, t) \<in> set store. map_of t ''id'' = Some (JStr k) \<and> take 5 k = ''task-''))"

definition has_key :: "json \<Rightarrow> string \<Rightarrow> bool" where
  "has_key v k = (case v of JObj kvs \<Rightarrow> k \<in> fst ` set kvs | _ \<Rightarrow> False)"

section \<open>Association lists and the shape of the store\<close>

lemma set_update_subset: "set (AList.update k v al) \<subseteq> insert (k, v) (set al)"
  by (induction al) auto

lemma set_delete_subset: "set (AList.delete k al) \<subseteq> set al"
  by (auto simp: AList.delete_eq)

lemma update_loop_other: "k \<notin> set fs \<Longrightarrow> map_of (update_loop ps fs t) k = map_of t k"
  by (induction fs arbitrary: t) (auto simp: AList.update_conv' split: option.splits)

lemma store_inv_update:
  assumes "store_inv s" "map_of t ''id'' = Some (JStr k)" "take 5 k = ''task-''"
  shows "store_inv (AList.update k t s)"
  using assms set_update_subset[of k t s]
  unfolding store_inv_def by (auto simp: AList.distinct_update)

lemma store_inv_delete: "store_inv s \<Longrightarrow> store_inv (AList.delete k s)"
  using set_delete_subset[of k s]
  unfolding store_inv_def by (auto simp: AList.distinct_delete)

lemma tasks_get_SomeD:
  "tasks_get s k = Some (key, t) \<Longrightarrow> k = SStr key \<and> map_of s key = Some t"
  by (cases k) auto

lemma store_inv_lookup:
  "store_inv s \<Longrightarrow> map_of s k = Some t \<Longrightarrow> map_of t ''id'' = Some (JStr k) \<and> take 5 k = ''task-''"
  unfolding store_inv_def by (auto dest!: map_of_SomeD)

lemma store_inv_tasks: "store_inv tasks"
  by (simp add: store_inv_def tasks_def)

lemma list_store: "handle_list_tasks p e s = Inr (r, s') \<Longrightarrow> s' = s"
  by (simp add: handle_list_tasks_def)

lemma get_store: "handle_get_task p e s = Inr (r, s') \<Longrightarrow> s' = s"
  by (cases p) (auto simp: Let_def split: if_splits sum.splits option.splits)

lemma create_inv: "store_inv s \<Longrightarrow> handle_create_task p e s = Inr (r, s') \<Longrightarrow> store_inv s'"
  by (cases p) (auto simp: Let_def intro!: store_inv_update split: if_splits)

lemma update_loop_id: "map_of (update_loop ps update_fields t) ''id'' = map_of t ''id''"
  by (rule update_loop_other) (simp add: update_fields_def)

lemma update_store_cases:
  assumes "handle_update_task p e s = Inr (r, s')"
  shows "s' = s \<or>
         (\<exists>ps key t. p = JObj ps \<and> map_of s key = Some t \<and>
            s' = AList.update key (update_loop ps update_fields t) s)"
proof (cases p)
  case (JObj ps)
  with assms show ?thesis
    by (fastforce simp: Let_def dest!: tasks_get_SomeD
             split: if_splits sum.splits option.splits)
qed (use assms in auto)

lemma update_inv:
  assumes "store_inv s" "handle_update_task p e s = Inr (r, s')"
  shows "store_inv s'"
  using update_store_cases[OF assms(2)]
proof (elim disjE exE conjE)
  fix ps key t
  assume a: "map_of s key = Some t" "s' = AList.update key (update_loop ps update_fields t) s"
  from store_inv_lookup[OF assms(1) a(1)] show ?thesis
    unfolding a(2) by (intro store_inv_update assms(1)) (simp_all add: update_loop_id)
qed (use assms in simp)

lemma delete_inv: "store_inv s \<Longrightarrow> handle_delete_task p e s = Inr (r, s') \<Longrightarrow> store_inv s'"
  by (cases p)
     (auto simp: Let_def intro!: store_inv_delete split: if_splits sum.splits option.splits)

lemma handler_map_cases:
  "handler_map name = Some h \<Longrightarrow>
     h = handle_list_tasks \<or> h = handle_get_task \<or> h = handle_create_task \<or>
     h = handle_update_task \<or> h = handle_delete_task"
  by (auto simp: handler_map_def split: if_splits)

lemma apply_call_inv: "store_inv s \<Longrightarrow> store_inv (apply_call s c)"
proof (cases c)
  case (fields name p e)
  assume inv: "store_inv s"
  show ?thesis
  proof (cases "handler_map name")
    case None
    with fields inv show ?thesis by simp
  next
    case (Some h)
    show ?thesis
    proof (cases "h p e s")
      case (Inl x)
      with fields Some inv show ?thesis by simp
    next
      case (Inr rs)
      obtain r s' where rs: "rs = (r, s')" by (cases rs)
      from handler_map_cases[OF Some] Inr rs inv have "store_inv s'"
        by (auto dest: list_store get_store create_inv update_inv delete_inv)
      with fields Some Inr rs show ?thesis by simp
    qed
  qed
qed

lemma run_calls_inv: "store_inv s \<Longrightarrow> store_inv (run_calls cs s)"
  unfolding run_calls_def by (induction cs arbitrary: s) (auto intro: apply_call_inv)

section \<open>Create\<close>

lemma create_result:
  assumes "truthy (dict_get ps ''title'' JNull)"
  shows "handle_create_task (JObj ps) e s =
    (let tid = ''task-'' @ take 8 (uuid4 e);
         task = [(''id'', JStr tid),
                 (''title'', dict_get ps ''title'' JNull),
                 (''description'', dict_get ps ''description'' (JStr [])),
                 (''status'', JStr ''pending''),
                 (''priority'', dict_get ps ''priority'' (JStr ''medium'')),
                 (''created_at'', JStr (now e)),
                 (''due_date'', dict_get ps ''due_date'' JNull)]
     in Inr (JObj [(''task'', JObj task), (''task_id'', JStr tid)], AList.update tid task s))"
  using assms by (simp add: Let_def)

text \<open>
  C3. For every parameter bag with a truthy (in particular, non-empty) title and every
  store, the create handler returns a record and its identifier, and the get handler,
  called on the store the create left with that identifier, returns exactly that record.
\<close>

theorem create_then_get:
  assumes "truthy (dict_get ps ''title'' JNull)"
  shows "\<exists>task tid s'.
    handle_create_task (JObj ps) e s =
      Inr (JObj [(''task'', JObj task), (''task_id'', JStr tid)], s') \<and>
    handle_get_task (JObj [(''task_id'', JStr tid)]) e' s' =
      Inr (JObj [(''task'', JObj task)], s')"
  unfolding create_result[OF assms]
  by (simp add: Let_def dict_get_def AList.update_conv')

theorem create_then_get_witness:
  "truthy (dict_get [(''title'', JStr ''Write spec'')] ''title'' JNull) \<and>
   (\<exists>task tid s'.
    handle_create_task (JObj [(''title'', JStr ''Write spec'')])
        \<lparr>uuid4 = ''3f2a9c01-5b7e-4d1a-9e0c-2b6f8a4d7c13'', now = ''2025-04-25T09:00:00''\<rparr> tasks =
      Inr (JObj [(''task'', JObj task), (''task_id'', JStr tid)], s') \<and>
    handle_get_task (JObj [(''task_id'', JStr tid)])
        \<lparr>uuid4 = ''3f2a9c01-5b7e-4d1a-9e0c-2b6f8a4d7c13'', now = ''2025-04-25T09:00:00''\<rparr> s' =
      Inr (JObj [(''task'', JObj task)], s'))"
proof -
  have h: "truthy (dict_get [(''title'', JStr ''Write spec'')] ''title'' JNull)"
    by (simp add: dict_get_def)
  show ?thesis using h create_then_get[OF h] by blast
qed

section \<open>The store after any sequence of calls\<close>

text \<open>
  C8. In the seed store and after any finite sequence of calls to the handlers, no key
  occurs twice and every key of the store maps to a record whose \<^verbatim>\<open>id\<close> field is
  that key.
\<close>

theorem store_keyed_by_id:
  "distinct (map fst (run_calls cs tasks)) \<and>
   (\<forall>k t. map_of (run_calls cs tasks) k = Some t \<longrightarrow> map_of t ''id'' = Some (JStr k))"
  using run_calls_inv[OF store_inv_tasks, of cs]
  by (auto simp: store_inv_def dest: store_inv_lookup)

theorem store_keyed_by_id_witness:
  "map_of (run_calls
      [(''create_task'', JObj [(''title'', JStr ''Write spec'')],
        \<lparr>uuid4 = ''3f2a9c01-5b7e-4d1a-9e0c-2b6f8a4d7c13'', now = ''2025-04-25T09:00:00''\<rparr>),
       (''delete_task'', JObj [(''task_id'', JStr ''task-001'')], \<lparr>uuid4 = [], now = []\<rparr>)]
      tasks) ''task-3f2a9c01'' =
     Some [(''id'', JStr ''task-3f2a9c01''),
           (''title'', JStr ''Write spec''),
           (''description'', JStr []),
           (''status'', JStr ''pending''),
           (''priority'', JStr ''medium''),
           (''created_at'', JStr ''2025-04-25T09:00:00''),
           (''due_date'', JNull)] \<and>
   map_of [(''id'', JStr ''task-3f2a9c01''),
           (''title'', JStr ''Write spec''),
           (''description'', JStr []),
           (''status'', JStr ''pending''),
           (''priority'', JStr ''medium''),
           (''created_at'', JStr ''2025-04-25T09:00:00''),
           (''due_date'', JNull)] ''id'' = Some (JStr ''task-3f2a9c01'')"
proof -
  let ?cs = "[(''create_task'', JObj [(''title'', JStr ''Write spec'')],
        \<lparr>uuid4 = ''3f2a9c01-5b7e-4d1a-9e0c-2b6f8a4d7c13'', now = ''2025-04-25T09:00:00''\<rparr>),
       (''delete_task'', JObj [(''task_id'', JStr ''task-001'')], \<lparr>uuid4 = [], now = []\<rparr>)]"
  have 1: "map_of (run_calls ?cs tasks) ''task-3f2a9c01'' =
     Some [(''id'', JStr ''task-3f2a9c01''),
           (''title'', JStr ''Write spec''),
           (''description'', JStr []),
           (''status'', JStr ''pending''),
           (''priority'', JStr ''medium''),
           (''created_at'', JStr ''2025-04-25T09:00:00''),
           (''due_date'', JNull)]"
    by (simp add: run_calls_def handler_map_def tasks_def dict_get_def Let_def)
  from store_keyed_by_id[of ?cs] 1 show ?thesis by blast
qed

section \<open>Error payloads leave the store alone\<close>

lemma create_error_store:
  "handle_create_task p e s = Inr (r, s') \<Longrightarrow> has_key r ''error'' \<Longrightarrow> s' = s"
  by (cases p) (auto simp: Let_def has_key_def split: if_splits)

lemma update_error_store:
  "handle_update_task p e s = Inr (r, s') \<Longrightarrow> has_key r ''error'' \<Longrightarrow> s' = s"
  by (cases p)
     (auto simp: Let_def has_key_def split: if_splits sum.splits option.splits)

lemma delete_error_store:
  "handle_delete_task p e s = Inr (r, s') \<Longrightarrow> has_key r ''error'' \<Longrightarrow> s' = s"
  by (cases p)
     (auto simp: Let_def has_key_def split: if_splits sum.splits option.splits)

text \<open>
  C9. Whenever one of the five handlers returns a result with the key \<^verbatim>\<open>error\<close>, the
  store after the call is the store before it; and the list and get handlers return the
  store they were given whatever their result is.
\<close>

theorem error_leaves_store:
  "(\<forall>name h r s'. handler_map name = Some h \<and> h p e s = Inr (r, s') \<and> has_key r ''error''
       \<longrightarrow> s' = s) \<and>
   (\<forall>r s'. handle_list_tasks p e s = Inr (r, s') \<longrightarrow> s' = s) \<and>
   (\<forall>r s'. handle_get_task p e s = Inr (r, s') \<longrightarrow> s' = s)"
proof (intro conjI allI impI)
  fix name h r s'
  assume a: "handler_map name = Some h \<and> h p e s = Inr (r, s') \<and> has_key r ''error''"
  then have hm: "handler_map name = Some h" and run: "h p e s = Inr (r, s')"
    and err: "has_key r ''error''" by simp_all
  from handler_map_cases[OF hm] show "s' = s"
  proof (elim disjE)
    assume "h = handle_list_tasks" with run show ?thesis by (simp add: list_store)
  next
    assume "h = handle_get_task" with run show ?thesis using get_store by blast
  next
    assume "h = handle_create_task" with run err show ?thesis using create_error_store by blast
  next
    assume "h = handle_update_task" with run err show ?thesis using update_error_store by blast
  next
    assume "h = handle_delete_task" with run err show ?thesis using delete_error_store by blast
  qed
next
  fix r s' assume "handle_list_tasks p e s = Inr (r, s')" then show "s' = s" by (rule list_store)
next
  fix r s' assume "handle_get_task p e s = Inr (r, s')" then show "s' = s" by (rule get_store)
qed


theorem error_leaves_store_witness:
  "handler_map ''delete_task'' = Some handle_delete_task \<and>
   handle_delete_task (JObj [(''task_id'', JStr ''task-999'')]) \<lparr>uuid4 = [], now = []\<rparr> tasks =
     Inr (JObj [(''error'', JStr ''Task with ID task-999 not found'')], tasks) \<and>
   has_key (JObj [(''error'', JStr ''Task with ID task-999 not found'')]) ''error'' \<and>
   handle_list_tasks JNull \<lparr>uuid4 = [], now = []\<rparr> tasks =
     Inr (JObj [(''tasks'', JArr (map (\<lambda>(k, t). JObj t) tasks))], tasks) \<and>
   handle_get_task (JObj [(''task_id'', JStr ''task-999'')]) \<lparr>uuid4 = [], now = []\<rparr> tasks =
     Inr (JObj [(''error'', JStr ''Task with ID task-999 not found'')], tasks)"
proof -
  have 1: "handler_map ''delete_task'' = Some handle_delete_task"
    by (simp add: handler_map_def)
  have 2: "handle_delete_task (JObj [(''task_id'', JStr ''task-999'')]) \<lparr>uuid4 = [], now = []\<rparr> tasks =
     Inr (JObj [(''error'', JStr ''Task with ID task-999 not found'')], tasks)"
    by (simp add: dict_get_def tasks_def not_found_def error_payload_def)
  have 3: "has_key (JObj [(''error'', JStr ''Task with ID task-999 not found'')]) ''error''"
    by (simp add: has_key_def)
  have 4: "handle_list_tasks JNull \<lparr>uuid4 = [], now = []\<rparr> tasks =
     Inr (JObj [(''tasks'', JArr (map (\<lambda>(k, t). JObj t) tasks))], tasks)"
    by (simp add: handle_list_tasks_def)
  have 5: "handle_get_task (JObj [(''task_id'', JStr ''task-999'')]) \<lparr>uuid4 = [], now = []\<rparr> tasks =
     Inr (JObj [(''error'', JStr ''Task with ID task-999 not found'')], tasks)"
    by (simp add: dict_get_def tasks_def not_found_def error_payload_def)
  show ?thesis
    using 1 2 3 4 5
      error_leaves_store[of "JObj [(''task_id'', JStr ''task-999'')]" "\<lparr>uuid4 = [], now = []\<rparr>" tasks]
    by simp
qed

section \<open>A falsy identifier\<close>

lemma keys_run_calls_nonempty: "k \<in> fst ` set (run_calls cs tasks) \<Longrightarrow> take 5 k = ''task-''"
  using run_calls_inv[OF store_inv_tasks, of cs] unfolding store_inv_def by auto

text \<open>
  C10. When the parameter bag has a \<^verbatim>\<open>task_id\<close> that is falsy (the empty string,
  \<^verbatim>\<open>null\<close>, \<^verbatim>\<open>false\<close>, zero, an empty list or dictionary), the get, update and
  delete handlers all answer with the missing-parameter error and leave the store as it
  is; and no key of a store the server reaches is such a value.
\<close>

theorem falsy_task_id_is_missing:
  assumes "map_of ps ''task_id'' = Some v" and "\<not> truthy v"
  shows "handle_get_task (JObj ps) e s =
           Inr (JObj [(''error'', JStr ''task_id parameter is required'')], s) \<and>
         handle_update_task (JObj ps) e s =
           Inr (JObj [(''error'', JStr ''task_id parameter is required'')], s) \<and>
         handle_delete_task (JObj ps) e s =
           Inr (JObj [(''error'', JStr ''task_id parameter is required'')], s) \<and>
         (\<forall>k \<in> fst ` set (run_calls cs tasks). JStr k \<noteq> v)"
proof -
  have "JStr k \<noteq> v" if "k \<in> fst ` set (run_calls cs tasks)" for k
  proof
    assume "JStr k = v"
    with assms(2) have "k = []" by auto
    with keys_run_calls_nonempty[OF that] show False by simp
  qed
  with assms show ?thesis by (simp add: dict_get_def error_payload_def)
qed

theorem falsy_task_id_is_missing_witness:
  "map_of [(''task_id'', JStr [])] ''task_id'' = Some (JStr []) \<and> \<not> truthy (JStr []) \<and>
   handle_get_task (JObj [(''task_id'', JStr [])]) \<lparr>uuid4 = [], now = []\<rparr> tasks =
     Inr (JObj [(''error'', JStr ''task_id parameter is required'')], tasks) \<and>
   handle_update_task (JObj [(''task_id'', JStr [])]) \<lparr>uuid4 = [], now = []\<rparr> tasks =
     Inr (JObj [(''error'', JStr ''task_id parameter is required'')], tasks) \<and>
   handle_delete_task (JObj [(''task_id'', JStr [])]) \<lparr>uuid4 = [], now = []\<rparr> tasks =
     Inr (JObj [(''error'', JStr ''task_id parameter is required'')], tasks) \<and>
   ''task-001'' \<in> fst ` set (run_calls [] tasks) \<and> JStr ''task-001'' \<noteq> JStr []"
proof -
  have 1: "map_of [(''task_id'', JStr [])] ''task_id'' = Some (JStr [])" by simp
  have 2: "\<not> truthy (JStr [])" by simp
  have 3: "''task-001'' \<in> fst ` set (run_calls [] tasks)"
    by (simp add: run_calls_def tasks_def)
  show ?thesis
    using 1 2 3 falsy_task_id_is_missing[OF 1 2, of "\<lparr>uuid4 = [], now = []\<rparr>" tasks "[]"]
    by simp
qed

section \<open>Update\<close>

lemma update_loop_cong:
  "(\<forall>k \<in> set fs. map_of ps' k = map_of ps k) \<Longrightarrow> update_loop ps' fs t = update_loop ps fs t"
  by (induction fs arbitrary: t) auto

lemma update_task_cong:
  assumes "\<forall>k \<in> set (''task_id'' # update_fields). map_of ps' k = map_of ps k"
  shows "handle_update_task (JObj ps') e s = handle_update_task (JObj ps) e s"
proof -
  from assms have 1: "dict_get ps' ''task_id'' JNull = dict_get ps ''task_id'' JNull"
    by (simp add: dict_get_def)
  from assms have 2: "update_loop ps' update_fields t = update_loop ps update_fields t" for t
    by (intro update_loop_cong) simp
  show ?thesis by (simp add: 1 2 Let_def split: sum.splits option.splits prod.splits)
qed

lemma update_result:
  assumes "store_inv s" "map_of s tid = Some t" "map_of ps ''task_id'' = Some (JStr tid)"
  shows "handle_update_task (JObj ps) e s =
           Inr (JObj [(''task'', JObj (update_loop ps update_fields t))],
                AList.update tid (update_loop ps update_fields t) s)"
proof -
  from store_inv_lookup[OF assms(1,2)] have "tid \<noteq> []" "t \<noteq> []" by auto
  with assms(2,3) show ?thesis by (simp add: dict_get_def Let_def)
qed

text \<open>
  C2. For every task stored under a key in a store the server reaches, and every
  parameter bag whose \<^verbatim>\<open>task_id\<close> is that key, the update handler returns the record
  its loop produces and stores it under the same key; the \<^verbatim>\<open>id\<close> and
  \<^verbatim>\<open>created_at\<close> of that record are those of the record before the call; and two
  bags that agree on \<^verbatim>\<open>task_id\<close> and on the five fields of the loop give the same
  result and the same store, so that any other key of the bag changes nothing and raises
  nothing.
\<close>

theorem update_frame:
  assumes "map_of (run_calls cs tasks) tid = Some t"
    and "map_of ps ''task_id'' = Some (JStr tid)"
  shows "handle_update_task (JObj ps) e (run_calls cs tasks) =
           Inr (JObj [(''task'', JObj (update_loop ps update_fields t))],
                AList.update tid (update_loop ps update_fields t) (run_calls cs tasks)) \<and>
         map_of (AList.update tid (update_loop ps update_fields t) (run_calls cs tasks)) tid =
           Some (update_loop ps update_fields t) \<and>
         map_of (update_loop ps update_fields t) ''id'' = map_of t ''id'' \<and>
         map_of (update_loop ps update_fields t) ''created_at'' = map_of t ''created_at'' \<and>
         (\<forall>ps'. (\<forall>k \<in> set (''task_id'' # update_fields). map_of ps' k = map_of ps k) \<longrightarrow>
            handle_update_task (JObj ps') e (run_calls cs tasks) =
            handle_update_task (JObj ps) e (run_calls cs tasks))"
proof (intro conjI allI impI)
  show "handle_update_task (JObj ps) e (run_calls cs tasks) =
           Inr (JObj [(''task'', JObj (update_loop ps update_fields t))],
                AList.update tid (update_loop ps update_fields t) (run_calls cs tasks))"
    using update_result[OF run_calls_inv[OF store_inv_tasks] assms] .
  show "map_of (AList.update tid (update_loop ps update_fields t) (run_calls cs tasks)) tid =
           Some (update_loop ps update_fields t)"
    by (simp add: AList.update_conv')
  show "map_of (update_loop ps update_fields t) ''id'' = map_of t ''id''"
    by (rule update_loop_other) (simp add: update_fields_def)
  show "map_of (update_loop ps update_fields t) ''created_at'' = map_of t ''created_at''"
    by (rule update_loop_other) (simp add: update_fields_def)
next
  fix ps'
  assume "\<forall>k \<in> set (''task_id'' # update_fields). map_of ps' k = map_of ps k"
  then show "handle_update_task (JObj ps') e (run_calls cs tasks) =
            handle_update_task (JObj ps) e (run_calls cs tasks)"
    by (rule update_task_cong)
qed

theorem update_frame_witness:
  "map_of (run_calls [] tasks) ''task-002'' =
     Some [(''id'', JStr ''task-002''),
        (''title'', JStr ''Test relay proxy''),
        (''description'', JStr ''Test the relay proxy with the MCP server''),
        (''status'', JStr ''pending''),
        (''priority'', JStr ''medium''),
        (''created_at'', JStr ''2025-04-24T12:30:00Z''),
        (''due_date'', JStr ''2025-04-27T12:00:00Z'')] \<and>
   handle_update_task
     (JObj [(''task_id'', JStr ''task-002''), (''status'', JStr ''done''),
            (''id'', JStr ''task-777''), (''created_at'', JStr ''never''), (''owner'', JInt 7)])
     \<lparr>uuid4 = [], now = []\<rparr> (run_calls [] tasks) =
   Inr (JObj [(''task'', JObj
       [(''id'', JStr ''task-002''),
        (''title'', JStr ''Test relay proxy''),
        (''description'', JStr ''Test the relay proxy with the MCP server''),
        (''status'', JStr ''done''),
        (''priority'', JStr ''medium''),
        (''created_at'', JStr ''2025-04-24T12:30:00Z''),
        (''due_date'', JStr ''2025-04-27T12:00:00Z'')])],
     [(''task-001'',
       [(''id'', JStr ''task-001''),
        (''title'', JStr ''Implement MCP server''),
        (''description'', JStr ''Create a working MCP server implementation''),
        (''status'', JStr ''in_progress''),
        (''priority'', JStr ''high''),
        (''created_at'', JStr ''2025-04-24T12:00:00Z''),
        (''due_date'', JStr ''2025-04-26T12:00:00Z'')]),
     (''task-002'',
       [(''id'', JStr ''task-002''),
        (''title'', JStr ''Test relay proxy''),
        (''description'', JStr ''Test the relay proxy with the MCP server''),
        (''status'', JStr ''done''),
        (''priority'', JStr ''medium''),
        (''created_at'', JStr ''2025-04-24T12:30:00Z''),
        (''due_date'', JStr ''2025-04-27T12:00:00Z'')])]) \<and>
   handle_update_task
     (JObj [(''task_id'', JStr ''task-002''), (''status'', JStr ''done'')])
     \<lparr>uuid4 = [], now = []\<rparr> (run_calls [] tasks) =
   handle_update_task
     (JObj [(''task_id'', JStr ''task-002''), (''status'', JStr ''done''),
            (''id'', JStr ''task-777''), (''created_at'', JStr ''never''), (''owner'', JInt 7)])
     \<lparr>uuid4 = [], now = []\<rparr> (run_calls [] tasks)"
proof -
  let ?t = "[(''id'', JStr ''task-002''),
        (''title'', JStr ''Test relay proxy''),
        (''description'', JStr ''Test the relay proxy with the MCP server''),
        (''status'', JStr ''pending''),
        (''priority'', JStr ''medium''),
        (''created_at'', JStr ''2025-04-24T12:30:00Z''),
        (''due_date'', JStr ''2025-04-27T12:00:00Z'')]"
  let ?ps = "[(''task_id'', JStr ''task-002''), (''status'', JStr ''done''),
            (''id'', JStr ''task-777''), (''created_at'', JStr ''never''), (''owner'', JInt 7)]"
  let ?ps' = "[(''task_id'', JStr ''task-002''), (''status'', JStr ''done'')]"
  have 1: "map_of (run_calls [] tasks) ''task-002'' = Some ?t"
    by (simp add: run_calls_def tasks_def)
  have 2: "map_of ?ps ''task_id'' = Some (JStr ''task-002'')" by simp
  have 3: "\<forall>k \<in> set (''task_id'' # update_fields). map_of ?ps' k = map_of ?ps k"
    by (simp add: update_fields_def)
  have 4: "update_loop ?ps update_fields ?t = [(''id'', JStr ''task-002''),
        (''title'', JStr ''Test relay proxy''),
        (''description'', JStr ''Test the relay proxy with the MCP server''),
        (''status'', JStr ''done''),
        (''priority'', JStr ''medium''),
        (''created_at'', JStr ''2025-04-24T12:30:00Z''),
        (''due_date'', JStr ''2025-04-27T12:00:00Z'')]"
    by (simp add: update_fields_def)
  have 5: "run_calls [] tasks = tasks" by (simp add: run_calls_def)
  from update_frame[OF 1 2, of "\<lparr>uuid4 = [], now = []\<rparr>"]
  have a: "handle_update_task (JObj ?ps) \<lparr>uuid4 = [], now = []\<rparr> (run_calls [] tasks) =
           Inr (JObj [(''task'', JObj (update_loop ?ps update_fields ?t))],
                AList.update ''task-002'' (update_loop ?ps update_fields ?t) (run_calls [] tasks))"
    and b: "\<forall>ps'. (\<forall>k \<in> set (''task_id'' # update_fields). map_of ps' k = map_of ?ps k) \<longrightarrow>
            handle_update_task (JObj ps') \<lparr>uuid4 = [], now = []\<rparr> (run_calls [] tasks) =
            handle_update_task (JObj ?ps) \<lparr>uuid4 = [], now = []\<rparr> (run_calls [] tasks)"
    by blast+
  from b 3 have c: "handle_update_task (JObj ?ps') \<lparr>uuid4 = [], now = []\<rparr> (run_calls [] tasks) =
            handle_update_task (JObj ?ps) \<lparr>uuid4 = [], now = []\<rparr> (run_calls [] tasks)"
    by blast
  have d: "AList.update ''task-002'' (update_loop ?ps update_fields ?t) (run_calls [] tasks) =
     [(''task-001'',
       [(''id'', JStr ''task-001''),
        (''title'', JStr ''Implement MCP server''),
        (''description'', JStr ''Create a working MCP server implementation''),
        (''status'', JStr ''in_progress''),
        (''priority'', JStr ''high''),
        (''created_at'', JStr ''2025-04-24T12:00:00Z''),
        (''due_date'', JStr ''2025-04-26T12:00:00Z'')]),
     (''task-002'',
       [(''id'', JStr ''task-002''),
        (''title'', JStr ''Test relay proxy''),
        (''description'', JStr ''Test the relay proxy with the MCP server''),
        (''status'', JStr ''done''),
        (''priority'', JStr ''medium''),
        (''created_at'', JStr ''2025-04-24T12:30:00Z''),
        (''due_date'', JStr ''2025-04-27T12:00:00Z'')])]"
    unfolding 4 5 by (simp add: tasks_def)
  from a d have a': "handle_update_task (JObj ?ps) \<lparr>uuid4 = [], now = []\<rparr> (run_calls [] tasks) =
    Inr (JObj [(''task'', JObj (update_loop ?ps update_fields ?t))],
     [(''task-001'',
       [(''id'', JStr ''task-001''),
        (''title'', JStr ''Implement MCP server''),
        (''description'', JStr ''Create a working MCP server implementation''),
        (''status'', JStr ''in_progress''),
        (''priority'', JStr ''high''),
        (''created_at'', JStr ''2025-04-24T12:00:00Z''),
        (''due_date'', JStr ''2025-04-26T12:00:00Z'')]),
     (''task-002'',
       [(''id'', JStr ''task-002''),
        (''title'', JStr ''Test relay proxy''),
        (''description'', JStr ''Test the relay proxy with the MCP server''),
        (''status'', JStr ''done''),
        (''priority'', JStr ''medium''),
        (''created_at'', JStr ''2025-04-24T12:30:00Z''),
        (''due_date'', JStr ''2025-04-27T12:00:00Z'')])])"
    by (simp only:)
  show ?thesis
    apply (intro conjI)
      apply (rule 1)
     apply (rule a'[unfolded 4])
    apply (rule c)
    done
qed

section \<open>Delete\<close>

text \<open>
  C4, as amended. For every truthy scalar \<^verbatim>\<open>task_id\<close> (a non-empty string in
  particular): when it is not a key of the store, the delete handler and the get handler
  return the not-found error for it and leave the store unchanged; when it is a key, the
  delete handler removes the record, and a second delete and a get on the store it left
  both return the not-found error.
\<close>

theorem delete_not_found:
  assumes "map_of ps ''task_id'' = Some (JScalar k)" and "truthy (JScalar k)"
  shows "(tasks_get s k = None \<longrightarrow>
            handle_delete_task (JObj ps) e s =
              Inr (JObj [(''error'', JStr (''Task with ID '' @ str_scalar k @ '' not found''))], s) \<and>
            handle_get_task (JObj ps) e s =
              Inr (JObj [(''error'', JStr (''Task with ID '' @ str_scalar k @ '' not found''))], s)) \<and>
         (\<forall>key t. tasks_get s k = Some (key, t) \<longrightarrow>
            handle_delete_task (JObj ps) e s =
              Inr (JObj [(''success'', JBool True), (''deleted_task'', JObj t)],
                   AList.delete key s) \<and>
            handle_delete_task (JObj ps) e' (AList.delete key s) =
              Inr (JObj [(''error'', JStr (''Task with ID '' @ str_scalar k @ '' not found''))],
                   AList.delete key s) \<and>
            handle_get_task (JObj ps) e' (AList.delete key s) =
              Inr (JObj [(''error'', JStr (''Task with ID '' @ str_scalar k @ '' not found''))],
                   AList.delete key s))"
proof (intro conjI allI impI)
  fix key t
  assume a: "tasks_get s k = Some (key, t)"
  then have k: "k = SStr key" by (simp add: tasks_get_SomeD)
  from assms a show "handle_delete_task (JObj ps) e s =
              Inr (JObj [(''success'', JBool True), (''deleted_task'', JObj t)],
                   AList.delete key s)"
    by (simp add: dict_get_def)
  from assms show "handle_delete_task (JObj ps) e' (AList.delete key s) =
              Inr (JObj [(''error'', JStr (''Task with ID '' @ str_scalar k @ '' not found''))],
                   AList.delete key s)"
    unfolding k by (simp add: dict_get_def AList.delete_conv' not_found_def error_payload_def)
  from assms show "handle_get_task (JObj ps) e' (AList.delete key s) =
              Inr (JObj [(''error'', JStr (''Task with ID '' @ str_scalar k @ '' not found''))],
                   AList.delete key s)"
    unfolding k by (simp add: dict_get_def AList.delete_conv' not_found_def error_payload_def)
qed (use assms in \<open>simp_all add: dict_get_def not_found_def error_payload_def\<close>)

theorem delete_not_found_witness:
  "map_of [(''task_id'', JStr ''task-001'')] ''task_id'' = Some (JStr ''task-001'') \<and>
   truthy (JStr ''task-001'') \<and>
   tasks_get tasks (SStr ''task-001'') =
     Some (''task-001'',
       [(''id'', JStr ''task-001''),
        (''title'', JStr ''Implement MCP server''),
        (''description'', JStr ''Create a working MCP server implementation''),
        (''status'', JStr ''in_progress''),
        (''priority'', JStr ''high''),
        (''created_at'', JStr ''2025-04-24T12:00:00Z''),
        (''due_date'', JStr ''2025-04-26T12:00:00Z'')]) \<and>
   handle_delete_task (JObj [(''task_id'', JStr ''task-001'')]) \<lparr>uuid4 = [], now = []\<rparr>
       (AList.delete ''task-001'' tasks) =
     Inr (JObj [(''error'', JStr ''Task with ID task-001 not found'')],
          AList.delete ''task-001'' tasks) \<and>
   handle_get_task (JObj [(''task_id'', JStr ''task-001'')]) \<lparr>uuid4 = [], now = []\<rparr>
       (AList.delete ''task-001'' tasks) =
     Inr (JObj [(''error'', JStr ''Task with ID task-001 not found'')],
          AList.delete ''task-001'' tasks) \<and>
   tasks_get tasks (SStr ''task-999'') = None \<and>
   handle_delete_task (JObj [(''task_id'', JStr ''task-999'')]) \<lparr>uuid4 = [], now = []\<rparr> tasks =
     Inr (JObj [(''error'', JStr ''Task with ID task-999 not found'')], tasks)"
proof -
  have 1: "map_of [(''task_id'', JStr ''task-001'')] ''task_id'' = Some (JStr ''task-001'')"
    by simp
  have 2: "truthy (JStr ''task-001'')" by simp
  have 3: "tasks_get tasks (SStr ''task-001'') =
     Some (''task-001'',
       [(''id'', JStr ''task-001''),
        (''title'', JStr ''Implement MCP server''),
        (''description'', JStr ''Create a working MCP server implementation''),
        (''status'', JStr ''in_progress''),
        (''priority'', JStr ''high''),
        (''created_at'', JStr ''2025-04-24T12:00:00Z''),
        (''due_date'', JStr ''2025-04-26T12:00:00Z'')])"
    by (simp add: tasks_def)
  have 4: "map_of [(''task_id'', JStr ''task-999'')] ''task_id'' = Some (JStr ''task-999'')"
    by simp
  have 5: "truthy (JStr ''task-999'')" by simp
  have 6: "tasks_get tasks (SStr ''task-999'') = None" by (simp add: tasks_def)
  show ?thesis
    using 1 2 3 6
      delete_not_found[OF 1 2, of tasks "\<lparr>uuid4 = [], now = []\<rparr>" "\<lparr>uuid4 = [], now = []\<rparr>"]
      delete_not_found[OF 4 5, of tasks "\<lparr>uuid4 = [], now = []\<rparr>" "\<lparr>uuid4 = [], now = []\<rparr>"]
    by simp
qed

text \<open>
  C4 as stated fails for the empty string: it is not a key of the seed store, and the
  delete handler answers it with the missing-parameter error, not the not-found error.
\<close>

theorem delete_empty_id_counterexample:
  "tasks_get tasks (SStr []) = None \<and>
   handle_delete_task (JObj [(''task_id'', JStr [])]) \<lparr>uuid4 = [], now = []\<rparr> tasks =
     Inr (JObj [(''error'', JStr ''task_id parameter is required'')], tasks) \<and>
   handle_delete_task (JObj [(''task_id'', JStr [])]) \<lparr>uuid4 = [], now = []\<rparr> tasks \<noteq>
     Inr (JObj [(''error'', JStr (''Task with ID '' @ [] @ '' not found''))], tasks)"
  by (simp add: tasks_def dict_get_def error_payload_def)

section \<open>Where the keys of the store come from\<close>

lemma handler_map_name_cases:
  assumes "handler_map name = Some h"
  shows "(name = ''create_task'' \<and> h = handle_create_task) \<or>
         (name \<noteq> ''create_task'' \<and>
            (h = handle_list_tasks \<or> h = handle_get_task \<or>
             h = handle_update_task \<or> h = handle_delete_task))"
  using assms by (auto simp: handler_map_def split: if_splits)

lemma create_keys:
  assumes "handle_create_task p e s = Inr (r, s')"
  shows "fst ` set s' \<subseteq> insert (''task-'' @ take 8 (uuid4 e)) (fst ` set s)"
proof (cases p)
  case (JObj ps)
  show ?thesis
  proof (cases "truthy (dict_get ps ''title'' JNull)")
    case True
    from assms[unfolded JObj create_result[OF True] Let_def]
    obtain task where "s' = AList.update (''task-'' @ take 8 (uuid4 e)) task s" by auto
    then show ?thesis by (simp add: AList.dom_update)
  next
    case False
    with assms JObj show ?thesis by auto
  qed
qed (use assms in auto)

lemma update_keys: "handle_update_task p e s = Inr (r, s') \<Longrightarrow> fst ` set s' \<subseteq> fst ` set s"
proof -
  assume "handle_update_task p e s = Inr (r, s')"
  from update_store_cases[OF this] show ?thesis
  proof (elim disjE exE conjE)
    fix ps key t
    assume a: "map_of s key = Some t" "s' = AList.update key (update_loop ps update_fields t) s"
    from a(1) have "key \<in> fst ` set s" by (auto dest: map_of_SomeD intro: rev_image_eqI)
    with a(2) show ?thesis by (auto simp: AList.dom_update)
  qed simp
qed

lemma delete_keys: "handle_delete_task p e s = Inr (r, s') \<Longrightarrow> fst ` set s' \<subseteq> fst ` set s"
  using set_delete_subset
  by (cases p) (fastforce simp: Let_def split: if_splits sum.splits option.splits)+

lemma apply_call_keys:
  "fst ` set (apply_call s c) \<subseteq> fst ` set s \<union> set (created_ids [c])"
proof (cases c)
  case (fields name p e)
  show ?thesis
  proof (cases "handler_map name")
    case None
    with fields show ?thesis by simp
  next
    case (Some h)
    show ?thesis
    proof (cases "h p e s")
      case (Inl x)
      with fields Some show ?thesis by simp
    next
      case (Inr rs)
      obtain r s' where rs: "rs = (r, s')" by (cases rs)
      have ac: "apply_call s c = s'" using fields Some Inr rs by simp
      from handler_map_name_cases[OF Some] show ?thesis
      proof (elim disjE conjE)
        assume "name = ''create_task''" "h = handle_create_task"
        with Inr rs create_keys[of p e s r s'] fields show ?thesis unfolding ac by auto
      next
        assume "h = handle_list_tasks"
        with Inr rs list_store[of p e s r s'] show ?thesis unfolding ac by auto
      next
        assume "h = handle_get_task"
        with Inr rs get_store[of p e s r s'] show ?thesis unfolding ac by auto
      next
        assume "h = handle_update_task"
        with Inr rs update_keys[of p e s r s'] show ?thesis unfolding ac by auto
      next
        assume "h = handle_delete_task"
        with Inr rs delete_keys[of p e s r s'] show ?thesis unfolding ac by auto
      qed
    qed
  qed
qed

lemma created_ids_Cons: "set (created_ids (c # cs)) = set (created_ids [c]) \<union> set (created_ids cs)"
  by (cases c) auto

lemma run_calls_keys: "fst ` set (run_calls cs s) \<subseteq> fst ` set s \<union> set (created_ids cs)"
proof (induction cs arbitrary: s)
  case Nil
  show ?case by (simp add: run_calls_def)
next
  case (Cons c cs)
  have "run_calls (c # cs) s = run_calls cs (apply_call s c)" by (simp add: run_calls_def)
  with Cons[of "apply_call s c"] apply_call_keys[of s c] created_ids_Cons[of c cs]
  show ?case by auto
qed

lemma seed_keys: "fst ` set tasks = {''task-001'', ''task-002''}"
  by (auto simp: tasks_def)

text \<open>
  C1, as amended. For every call of the create handler with a truthy title, on any
  store, the returned task has status \<^verbatim>\<open>pending\<close> and the identifier \<^verbatim>\<open>task-\<close>
  followed by the first eight characters of the UUID drawn, and it is stored under that
  identifier. When the store is one the server reached from the seed store by a sequence
  of calls, the UUID has at least eight characters and no create call of that sequence
  produced the same identifier, the identifier is no key of the store before the call and
  no record there carries it.
\<close>

theorem create_fresh_id:
  assumes "truthy (dict_get ps ''title'' JNull)"
  shows "\<exists>task.
     handle_create_task (JObj ps) e s =
       Inr (JObj [(''task'', JObj task), (''task_id'', JStr (''task-'' @ take 8 (uuid4 e)))],
            AList.update (''task-'' @ take 8 (uuid4 e)) task s) \<and>
     map_of task ''id'' = Some (JStr (''task-'' @ take 8 (uuid4 e))) \<and>
     map_of task ''status'' = Some (JStr ''pending'') \<and>
     (s = run_calls cs tasks \<and> 8 \<le> length (uuid4 e) \<and>
      ''task-'' @ take 8 (uuid4 e) \<notin> set (created_ids cs) \<longrightarrow>
        ''task-'' @ take 8 (uuid4 e) \<notin> fst ` set s \<and>
        (\<forall>(k, t) \<in> set s. map_of t ''id'' \<noteq> Some (JStr (''task-'' @ take 8 (uuid4 e)))))"
proof -
  let ?tid = "''task-'' @ take 8 (uuid4 e)"
  have fresh: "?tid \<notin> fst ` set s \<and> (\<forall>(k, t) \<in> set s. map_of t ''id'' \<noteq> Some (JStr ?tid))"
    if a: "s = run_calls cs tasks" "8 \<le> length (uuid4 e)" "?tid \<notin> set (created_ids cs)"
  proof -
    from a(2) have len: "length ?tid = 13" by simp
    have "?tid \<noteq> ''task-001''"
    proof
      assume "?tid = ''task-001''"
      then have "length ?tid = length ''task-001''" by (rule arg_cong)
      with len show False by simp
    qed
    moreover have "?tid \<noteq> ''task-002''"
    proof
      assume "?tid = ''task-002''"
      then have "length ?tid = length ''task-002''" by (rule arg_cong)
      with len show False by simp
    qed
    ultimately have "?tid \<noteq> ''task-001''" "?tid \<noteq> ''task-002''" by blast+
    with a(3) run_calls_keys[of cs tasks] seed_keys have 1: "?tid \<notin> fst ` set s"
      unfolding a(1) by auto
    have inv: "store_inv s" unfolding a(1) by (rule run_calls_inv[OF store_inv_tasks])
    have "map_of t ''id'' \<noteq> Some (JStr ?tid)" if "(k, t) \<in> set s" for k t
    proof
      assume eq: "map_of t ''id'' = Some (JStr ?tid)"
      from inv that have "map_of t ''id'' = Some (JStr k)" unfolding store_inv_def by auto
      with eq have "k = ?tid" by simp
      with that 1 show False by (auto intro: rev_image_eqI)
    qed
    with 1 show ?thesis by auto
  qed
  show ?thesis
    unfolding create_result[OF assms] Let_def
    using fresh by (intro exI conjI) (rule refl, simp, simp, blast)
qed


theorem create_fresh_id_witness:
  "truthy (dict_get [(''title'', JStr ''Write spec'')] ''title'' JNull) \<and>
   8 \<le> length (uuid4 \<lparr>uuid4 = ''3f2a9c01-5b7e-4d1a-9e0c-2b6f8a4d7c13'', now = ''2025-04-25T09:00:00''\<rparr>) \<and>
   ''task-3f2a9c01'' \<notin> set (created_ids
      [(''create_task'', JObj [(''title'', JStr ''First'')],
        \<lparr>uuid4 = ''a1b2c3d4-0000-4000-8000-000000000001'', now = ''2025-04-25T08:00:00''\<rparr>)]) \<and>
   ''task-3f2a9c01'' \<notin> fst ` set (run_calls
      [(''create_task'', JObj [(''title'', JStr ''First'')],
        \<lparr>uuid4 = ''a1b2c3d4-0000-4000-8000-000000000001'', now = ''2025-04-25T08:00:00''\<rparr>)]
      tasks) \<and>
   (\<exists>task s'.
      handle_create_task (JObj [(''title'', JStr ''Write spec'')])
        \<lparr>uuid4 = ''3f2a9c01-5b7e-4d1a-9e0c-2b6f8a4d7c13'', now = ''2025-04-25T09:00:00''\<rparr>
        (run_calls
          [(''create_task'', JObj [(''title'', JStr ''First'')],
            \<lparr>uuid4 = ''a1b2c3d4-0000-4000-8000-000000000001'', now = ''2025-04-25T08:00:00''\<rparr>)]
          tasks) =
        Inr (JObj [(''task'', JObj task), (''task_id'', JStr ''task-3f2a9c01'')], s') \<and>
      map_of task ''id'' = Some (JStr ''task-3f2a9c01'') \<and>
      map_of task ''status'' = Some (JStr ''pending''))"
proof -
  let ?e = "\<lparr>uuid4 = ''3f2a9c01-5b7e-4d1a-9e0c-2b6f8a4d7c13'', now = ''2025-04-25T09:00:00''\<rparr>"
  let ?cs = "[(''create_task'', JObj [(''title'', JStr ''First'')],
        \<lparr>uuid4 = ''a1b2c3d4-0000-4000-8000-000000000001'', now = ''2025-04-25T08:00:00''\<rparr>)]"
  have 1: "truthy (dict_get [(''title'', JStr ''Write spec'')] ''title'' JNull)"
    by (simp add: dict_get_def)
  have 2: "8 \<le> length (uuid4 ?e)" by simp
  have 3: "''task-'' @ take 8 (uuid4 ?e) = ''task-3f2a9c01''" by simp
  have 4: "''task-3f2a9c01'' \<notin> set (created_ids ?cs)" by simp
  from create_fresh_id[OF 1, of ?e "run_calls ?cs tasks" ?cs] 2 4
  show ?thesis unfolding 3 using 1 by blast
qed

text \<open>
  C1 as stated fails when the random token repeats: two UUIDs that share their first
  eight characters give the same identifier, so the second create returns an identifier
  that is a key of the store before the call, and replaces the record stored there.
\<close>

theorem create_id_collision_counterexample:
  "truthy (dict_get [(''title'', JStr ''Second'')] ''title'' JNull) \<and>
   ''task-deadbeef'' \<in> fst ` set (run_calls
      [(''create_task'', JObj [(''title'', JStr ''First'')],
        \<lparr>uuid4 = ''deadbeef-0000-4000-8000-000000000001'', now = ''2025-04-25T08:00:00''\<rparr>)]
      tasks) \<and>
   handle_create_task (JObj [(''title'', JStr ''Second'')])
     \<lparr>uuid4 = ''deadbeef-ffff-4fff-bfff-fffffffffffe'', now = ''2025-04-25T09:00:00''\<rparr>
     (run_calls
        [(''create_task'', JObj [(''title'', JStr ''First'')],
          \<lparr>uuid4 = ''deadbeef-0000-4000-8000-000000000001'', now = ''2025-04-25T08:00:00''\<rparr>)]
        tasks) =
   Inr (JObj [(''task'', JObj
                 [(''id'', JStr ''task-deadbeef''),
                  (''title'', JStr ''Second''),
                  (''description'', JStr []),
                  (''status'', JStr ''pending''),
                  (''priority'', JStr ''medium''),
                  (''created_at'', JStr ''2025-04-25T09:00:00''),
                  (''due_date'', JNull)]),
              (''task_id'', JStr ''task-deadbeef'')],
        tasks @
        [(''task-deadbeef'',
          [(''id'', JStr ''task-deadbeef''),
           (''title'', JStr ''Second''),
           (''description'', JStr []),
           (''status'', JStr ''pending''),
           (''priority'', JStr ''medium''),
           (''created_at'', JStr ''2025-04-25T09:00:00''),
           (''due_date'', JNull)])])"
  by (simp add: run_calls_def handler_map_def tasks_def dict_get_def Let_def)

section \<open>Encoding of error payloads\<close>

lemma utf8_encodable_Cons:
  "(of_char a :: nat) \<noteq> 237 \<Longrightarrow> utf8_encodable (a # s) = utf8_encodable s"
  by (cases s) auto

lemma utf8_encodable_append:
  "ys \<noteq> [] \<Longrightarrow> (of_char (hd ys) :: nat) < 160 \<Longrightarrow>
     utf8_encodable (xs @ ys) = (utf8_encodable xs \<and> utf8_encodable ys)"
  by (induction xs rule: utf8_encodable.induct) (simp, simp, cases ys, auto)

lemma encodable_error_payload: "encodable (error_payload m) = utf8_encodable m"
  by (simp add: error_payload_def)


lemma encodable_not_supported:
  "encodable (error_payload (''Function '' @ f @ '' not supported'')) = utf8_encodable f"
  by (simp add: encodable_error_payload utf8_encodable_Cons utf8_encodable_append)

lemma json_response_error:
  "json_response (JObj [(''error'', JStr m)]) =
     (if utf8_encodable m then \<lparr>status = 200, headers = [], body = JObj [(''error'', JStr m)]\<rparr>
      else \<lparr>status = 500, headers = [], body = JStr ''Internal Server Error''\<rparr>)"
  by (simp add: json_response_def)

section \<open>Authentication\<close>

lemma is_ascii_USERNAME: "is_ascii USERNAME"
  by (simp add: is_ascii_def USERNAME_def)

lemma is_ascii_PASSWORD: "is_ascii PASSWORD"
  by (simp add: is_ascii_def PASSWORD_def)

lemma verify_credentials_ascii:
  assumes "is_ascii (username c)" "is_ascii (password c)"
  shows "verify_credentials c =
           (if username c = USERNAME \<and> password c = PASSWORD then Inr c
            else Inl (HTTPException 401 ''Invalid credentials''
                        [(''WWW-Authenticate'', ''Basic'')]))"
  using assms
  by (simp add: verify_credentials_def compare_digest_def is_ascii_USERNAME is_ascii_PASSWORD)

lemma post_mcp_authenticated:
  assumes "username c = USERNAME" "password c = PASSWORD"
  shows "post_mcp hmap f loaded c e s =
           (json_response (fst (handle_mcp_request hmap f loaded e s)),
            snd (handle_mcp_request hmap f loaded e s))"
proof -
  from assms have a: "is_ascii (username c)" "is_ascii (password c)"
    by (simp_all add: is_ascii_USERNAME is_ascii_PASSWORD)
  with assms show ?thesis
    by (simp add: post_mcp_def security_def verify_credentials_ascii split: prod.splits)
qed

lemma post_mcp_rejected:
  assumes "\<not> (username c = USERNAME \<and> password c = PASSWORD)"
  shows "\<exists>detail. post_mcp hmap f loaded c e s =
           (\<lparr>status = 401, headers = [(''WWW-Authenticate'', ''Basic'')],
             body = JObj [(''detail'', JStr detail)]\<rparr>, s) \<and>
           detail \<in> {''Invalid credentials'', ''Invalid authentication credentials''}"
proof (cases "is_ascii (username c) \<and> is_ascii (password c)")
  case True
  with assms show ?thesis
    by (auto simp add: post_mcp_def security_def verify_credentials_ascii)
next
  case False
  then show ?thesis by (auto simp add: post_mcp_def security_def)
qed

text \<open>
  C5. On a pair the framework hands over (an ASCII one), \<^verbatim>\<open>verify_credentials\<close>
  succeeds exactly when the username is the configured username and the password the
  configured password. For every supplied pair, whatever the function name, the body and
  the handler table: when both match, the request reaches \<^verbatim>\<open>handle_mcp_request\<close> and
  the response is the framework's encoding of what it returns; otherwise the response
  has status 401 and the header \<^verbatim>\<open>WWW-Authenticate: Basic\<close>, the store is unchanged, and
  the response is the same for every handler table, function name and body, so that no
  handler ran.
\<close>

theorem credentials_gate:
  "(is_ascii (username c) \<and> is_ascii (password c) \<longrightarrow>
      (verify_credentials c = Inr c) = (username c = USERNAME \<and> password c = PASSWORD)) \<and>
   (username c = USERNAME \<and> password c = PASSWORD \<longrightarrow>
      post_mcp hmap f loaded c e s =
        (json_response (fst (handle_mcp_request hmap f loaded e s)),
         snd (handle_mcp_request hmap f loaded e s)) \<and>
      status (fst (post_mcp hmap f loaded c e s)) \<noteq> 401) \<and>
   (\<not> (username c = USERNAME \<and> password c = PASSWORD) \<longrightarrow>
      status (fst (post_mcp hmap f loaded c e s)) = 401 \<and>
      headers (fst (post_mcp hmap f loaded c e s)) = [(''WWW-Authenticate'', ''Basic'')] \<and>
      snd (post_mcp hmap f loaded c e s) = s \<and>
      (\<forall>hmap' f' loaded' e'.
         fst (post_mcp hmap' f' loaded' c e' s) = fst (post_mcp hmap f loaded c e s)))"
proof (intro conjI impI allI)
  assume "is_ascii (username c) \<and> is_ascii (password c)"
  then show "(verify_credentials c = Inr c) = (username c = USERNAME \<and> password c = PASSWORD)"
    by (simp add: verify_credentials_ascii)
next
  assume "username c = USERNAME \<and> password c = PASSWORD"
  then show "post_mcp hmap f loaded c e s =
        (json_response (fst (handle_mcp_request hmap f loaded e s)),
         snd (handle_mcp_request hmap f loaded e s))"
    by (simp add: post_mcp_authenticated)
next
  assume "username c = USERNAME \<and> password c = PASSWORD"
  then show "status (fst (post_mcp hmap f loaded c e s)) \<noteq> 401"
    by (simp add: post_mcp_authenticated json_response_def)
next
  assume a: "\<not> (username c = USERNAME \<and> password c = PASSWORD)"
  from post_mcp_rejected[OF a, of hmap f loaded e s]
  show "status (fst (post_mcp hmap f loaded c e s)) = 401" by auto
  from post_mcp_rejected[OF a, of hmap f loaded e s]
  show "headers (fst (post_mcp hmap f loaded c e s)) = [(''WWW-Authenticate'', ''Basic'')]"
    by auto
  from post_mcp_rejected[OF a, of hmap f loaded e s]
  show "snd (post_mcp hmap f loaded c e s) = s" by auto
  fix hmap' f' loaded' e'
  show "fst (post_mcp hmap' f' loaded' c e' s) = fst (post_mcp hmap f loaded c e s)"
  proof (cases "is_ascii (username c) \<and> is_ascii (password c)")
    case True
    with a show ?thesis by (auto simp add: post_mcp_def security_def verify_credentials_ascii)
  next
    case False
    then show ?thesis by (auto simp add: post_mcp_def security_def)
  qed
qed

theorem credentials_gate_witness:
  "post_mcp handler_map ''get_task'' (Inr (JObj [(''task_id'', JStr ''task-009'')]))
      \<lparr>username = ''instabids'', password = ''secure123password''\<rparr>
      \<lparr>uuid4 = [], now = []\<rparr> tasks =
     (\<lparr>status = 200, headers = [],
       body = JObj [(''error'', JStr ''Task with ID task-009 not found'')]\<rparr>, tasks) \<and>
   post_mcp handler_map ''delete_task'' (Inr (JObj [(''task_id'', JStr ''task-001'')]))
      \<lparr>username = ''instabids'', password = ''secure123passwore''\<rparr>
      \<lparr>uuid4 = [], now = []\<rparr> tasks =
     (\<lparr>status = 401, headers = [(''WWW-Authenticate'', ''Basic'')],
       body = JObj [(''detail'', JStr ''Invalid credentials'')]\<rparr>, tasks) \<and>
   status (fst (post_mcp handler_map ''delete_task'' (Inr (JObj [(''task_id'', JStr ''task-001'')]))
      \<lparr>username = ''instabids'', password = ''secure123passwore''\<rparr>
      \<lparr>uuid4 = [], now = []\<rparr> tasks)) = 401 \<and>
   verify_credentials \<lparr>username = ''instabids'', password = ''secure123password''\<rparr> =
     Inr \<lparr>username = ''instabids'', password = ''secure123password''\<rparr>"
proof -
  let ?good = "\<lparr>username = ''instabids'', password = ''secure123password''\<rparr>"
  let ?bad = "\<lparr>username = ''instabids'', password = ''secure123passwore''\<rparr>"
  let ?e = "\<lparr>uuid4 = [], now = []\<rparr>"
  have 1: "username ?good = USERNAME \<and> password ?good = PASSWORD"
    by (simp add: USERNAME_def PASSWORD_def)
  have 2: "\<not> (username ?bad = USERNAME \<and> password ?bad = PASSWORD)"
    by (simp add: USERNAME_def PASSWORD_def)
  have 3: "is_ascii (username ?good) \<and> is_ascii (password ?good)"
    by (simp add: is_ascii_def)
  have 4: "handle_mcp_request handler_map ''get_task''
             (Inr (JObj [(''task_id'', JStr ''task-009'')])) ?e tasks =
           (JObj [(''error'', JStr ''Task with ID task-009 not found'')], tasks)"
    by (simp add: handle_mcp_request_def handler_map_def dict_get_def tasks_def
                  not_found_def error_payload_def)
  have 5: "post_mcp handler_map ''delete_task'' (Inr (JObj [(''task_id'', JStr ''task-001'')]))
      ?bad ?e tasks =
     (\<lparr>status = 401, headers = [(''WWW-Authenticate'', ''Basic'')],
       body = JObj [(''detail'', JStr ''Invalid credentials'')]\<rparr>, tasks)"
    by (simp add: post_mcp_def security_def verify_credentials_def compare_digest_def
                  is_ascii_def USERNAME_def PASSWORD_def)
  have 6: "json_response (JObj [(''error'', JStr ''Task with ID task-009 not found'')]) =
     \<lparr>status = 200, headers = [],
       body = JObj [(''error'', JStr ''Task with ID task-009 not found'')]\<rparr>"
    by (simp add: json_response_def)
  from credentials_gate[of ?good handler_map "''get_task''"
         "Inr (JObj [(''task_id'', JStr ''task-009'')])" ?e tasks] 1 3
  have a: "post_mcp handler_map ''get_task'' (Inr (JObj [(''task_id'', JStr ''task-009'')]))
             ?good ?e tasks =
           (json_response (fst (handle_mcp_request handler_map ''get_task''
                           (Inr (JObj [(''task_id'', JStr ''task-009'')])) ?e tasks)),
            snd (handle_mcp_request handler_map ''get_task''
                   (Inr (JObj [(''task_id'', JStr ''task-009'')])) ?e tasks))"
    and b: "verify_credentials ?good = Inr ?good"
    by blast+
  from credentials_gate[of ?bad handler_map "''delete_task''"
         "Inr (JObj [(''task_id'', JStr ''task-001'')])" ?e tasks] 2
  have c: "status (fst (post_mcp handler_map ''delete_task''
             (Inr (JObj [(''task_id'', JStr ''task-001'')])) ?bad ?e tasks)) = 401"
    by blast
  show ?thesis
    apply (intro conjI)
       apply (simp only: a 4 fst_conv snd_conv 6)
      apply (rule 5)
     apply (rule c)
    apply (rule b)
    done
qed

section \<open>Errors of an authenticated request\<close>







lemma utf8_encodable_not_supported:
  "utf8_encodable (''Function '' @ f @ '' not supported'') = utf8_encodable f"
  using encodable_not_supported[of f] by (simp add: error_payload_def)




text \<open>
  C7. For every function name outside the five of the handler table, an authenticated
  request whose body is a JSON object makes \<^verbatim>\<open>handle_mcp_request\<close> return
  \<^verbatim>\<open>{"error": "Function <function_name> not supported"}\<close> with the store unchanged,
  and the response is the framework's encoding of that dictionary: status 200 with the
  dictionary as its body for every name that can be encoded as UTF-8, which every name
  the route takes from a request path can. The same holds for every handler table
  without that name, whatever its handlers are: none of them is called.
\<close>

theorem unsupported_function:
  assumes "f \<notin> {''list_tasks'', ''get_task'', ''create_task'', ''update_task'', ''delete_task''}"
    and "username c = USERNAME" and "password c = PASSWORD"
  shows "handler_map f = None \<and>
    (\<forall>hmap. hmap f = None \<longrightarrow>
       handle_mcp_request hmap f (Inr (JObj ps)) e s =
         (JObj [(''error'', JStr (''Function '' @ f @ '' not supported''))], s) \<and>
       post_mcp hmap f (Inr (JObj ps)) c e s =
         (json_response (JObj [(''error'', JStr (''Function '' @ f @ '' not supported''))]),
          s) \<and>
       (utf8_encodable f \<longrightarrow>
          post_mcp hmap f (Inr (JObj ps)) c e s =
            (\<lparr>status = 200, headers = [],
              body = JObj [(''error'', JStr (''Function '' @ f @ '' not supported''))]\<rparr>, s)))"
proof -
  from assms(1) have none: "handler_map f = None" by (simp add: handler_map_def)
  have gen: "handle_mcp_request hmap f (Inr (JObj ps)) e s =
         (JObj [(''error'', JStr (''Function '' @ f @ '' not supported''))], s)"
    if "hmap f = None" for hmap
    using that by (simp add: handle_mcp_request_def error_payload_def)
  have post: "post_mcp hmap f (Inr (JObj ps)) c e s =
         (json_response (JObj [(''error'', JStr (''Function '' @ f @ '' not supported''))]),
          s)"
    if "hmap f = None" for hmap
    using that by (simp add: post_mcp_authenticated[OF assms(2,3)] gen)
  have enc: "json_response (JObj [(''error'', JStr (''Function '' @ f @ '' not supported''))]) =
            \<lparr>status = 200, headers = [],
              body = JObj [(''error'', JStr (''Function '' @ f @ '' not supported''))]\<rparr>"
    if "utf8_encodable f"
    using that by (simp only: json_response_error utf8_encodable_not_supported if_True)
  from none gen post enc show ?thesis by simp
qed

theorem unsupported_function_witness:
  "''unknown_fn'' \<notin> {''list_tasks'', ''get_task'', ''create_task'', ''update_task'', ''delete_task''} \<and>
   handler_map ''unknown_fn'' = None \<and> utf8_encodable ''unknown_fn'' \<and>
   post_mcp handler_map ''unknown_fn'' (Inr (JObj []))
       \<lparr>username = ''instabids'', password = ''secure123password''\<rparr>
       \<lparr>uuid4 = [], now = []\<rparr> tasks =
     (\<lparr>status = 200, headers = [],
       body = JObj [(''error'', JStr ''Function unknown_fn not supported'')]\<rparr>, tasks)"
proof -
  let ?c = "\<lparr>username = ''instabids'', password = ''secure123password''\<rparr>"
  have 0: "''unknown_fn'' \<notin> {''list_tasks'', ''get_task'', ''create_task'', ''update_task'', ''delete_task''}"
    by simp
  have 1: "username ?c = USERNAME" by (simp add: USERNAME_def)
  have 2: "password ?c = PASSWORD" by (simp add: PASSWORD_def)
  have 3: "utf8_encodable ''unknown_fn''" by simp
  note t = unsupported_function[OF 0 1 2, of "[]" "\<lparr>uuid4 = [], now = []\<rparr>" tasks]
  from t have n: "handler_map ''unknown_fn'' = None" by (rule conjunct1)
  note u = t[THEN conjunct2, THEN spec, of handler_map, THEN mp, OF n]
  note v = u[THEN conjunct2, THEN conjunct2, THEN mp, OF 3]
  show ?thesis using 0 n 3 v by simp
qed

end
